theory Spec2Isabelle
  imports Complex_Main "HOL-Library.Word"
begin

section \<open>JavaScript values as the handler sees them\<close>

text \<open>
  The handler of \<^verbatim>\<open>POST /sessions\<close> reads \<^verbatim>\<open>req.body\<close>, which
  \<^verbatim>\<open>express.json()\<close> has produced from the request text. A JavaScript string
  is a sequence of 16-bit code units; a number is a double, modelled by its exact
  rational value (a superset of the doubles) or one of the three non-finite values.
  An object is the list of its own properties in source order; a later duplicate
  key overrides an earlier one, as in \<^verbatim>\<open>JSON.parse\<close>.
\<close>

type_synonym jsstring = "16 word list"

definition js :: "string \<Rightarrow> jsstring" where
  "js s = map (\<lambda>c. of_nat (of_char c)) s"

datatype jsnum = Finite rat | PosInfinity | NegInfinity | NaN

datatype jsval =
    JUndefined
  | JNull
  | JBool bool
  | JNum jsnum
  | JStr jsstring
  | JArr "jsval list"
  | JObj "(jsstring \<times> jsval) list"

datatype exn = TypeError | Failure jsstring

text \<open>A time value: milliseconds since the epoch, or \<open>None\<close> for \<^verbatim>\<open>NaN\<close>
  (an Invalid Date).\<close>

type_synonym timevalue = "int option"

subsection \<open>Truthiness and property access\<close>

fun truthy :: "jsval \<Rightarrow> bool" where
  "truthy JUndefined = False"
| "truthy JNull = False"
| "truthy (JBool b) = b"
| "truthy (JNum (Finite q)) = (q \<noteq> 0)"
| "truthy (JNum NaN) = False"
| "truthy (JNum _) = True"
| "truthy (JStr s) = (s \<noteq> [])"
| "truthy (JArr _) = True"
| "truthy (JObj _) = True"

definition has_own :: "(jsstring \<times> jsval) list \<Rightarrow> jsstring \<Rightarrow> bool" where
  "has_own kvs k = (map_of kvs k \<noteq> None)"

definition get_own :: "(jsstring \<times> jsval) list \<Rightarrow> jsstring \<Rightarrow> jsval" where
  "get_own kvs k = (case map_of (rev kvs) k of None \<Rightarrow> JUndefined | Some v \<Rightarrow> v)"

text \<open>
  \<^verbatim>\<open>const { userId, startTime, endTime } = req.body\<close> (line 53). Destructuring
  \<^verbatim>\<open>undefined\<close> or \<^verbatim>\<open>null\<close> throws a TypeError; every other value is
  coerced to an object. Only a parsed JSON object can own one of the three names:
  arrays own indices and \<^verbatim>\<open>length\<close>, the wrappers of primitives own nothing
  of that name, and no prototype defines them.
\<close>

fun get_prop :: "jsval \<Rightarrow> jsstring \<Rightarrow> jsval" where
  "get_prop (JObj kvs) k = get_own kvs k"
| "get_prop _ k = JUndefined"

definition destructure :: "jsval \<Rightarrow> exn + (jsval \<times> jsval \<times> jsval)" where
  "destructure body =
     (if body = JUndefined \<or> body = JNull then Inl TypeError
      else Inr (get_prop body (js ''userId''),
                get_prop body (js ''startTime''),
                get_prop body (js ''endTime'')))"

subsection \<open>\<^verbatim>\<open>String.prototype.trim\<close>\<close>

text \<open>The code units that \<^verbatim>\<open>trim\<close> strips: ECMAScript WhiteSpace and
  LineTerminator.\<close>

definition is_whitespace :: "16 word \<Rightarrow> bool" where
  "is_whitespace c =
     (c = 0x0009 \<or> c = 0x000A \<or> c = 0x000B \<or> c = 0x000C \<or> c = 0x000D \<or> c = 0x0020
      \<or> c = 0x00A0 \<or> c = 0x1680 \<or> (0x2000 \<le> c \<and> c \<le> 0x200A)
      \<or> c = 0x2028 \<or> c = 0x2029 \<or> c = 0x202F \<or> c = 0x205F \<or> c = 0x3000 \<or> c = 0xFEFF)"

definition trim :: "jsstring \<Rightarrow> jsstring" where
  "trim s = rev (dropWhile is_whitespace (rev (dropWhile is_whitespace s)))"

subsection \<open>\<^verbatim>\<open>new Date(value)\<close>\<close>

text \<open>
  What the engine decides and the program does not: the text formats that
  \<^verbatim>\<open>Date.parse\<close> accepts beyond the empty string, how a number prints, the two
  clock readings and the random text of the session identifier, the outcome of each
  media stage, and the identifier and outcome of the store's save.
\<close>

record session_media =
  compressed :: bool
  audioExtracted :: bool

record session_data =
  userId :: jsstring
  startTime :: int
  endTime :: int
  media :: session_media
  createdAt :: int

record session_doc =
  doc_id :: jsstring
  doc_data :: session_data

record env =
  date_format :: "jsstring \<Rightarrow> timevalue"
  number_toString :: "jsnum \<Rightarrow> jsstring"
  now_sessionId :: int
  random_base36 :: jsstring
  now_createdAt :: int
  compress_stage :: "jsstring \<Rightarrow> exn + bool"
  extract_stage :: "jsstring \<Rightarrow> exn + bool"
  new_object_id :: jsstring
  store_save :: "session_doc \<Rightarrow> exn option"

text \<open>
  \<^verbatim>\<open>ToString\<close> of a value that came from JSON. No such value is callable, so an
  object that owns a \<^verbatim>\<open>toString\<close> property has no usable conversion
  (its own \<^verbatim>\<open>toString\<close> is skipped and \<^verbatim>\<open>valueOf\<close> returns the object
  or is skipped as well): a TypeError. Any other object prints as
  \<^verbatim>\<open>[object Object]\<close>; an array joins its elements with commas, \<^verbatim>\<open>null\<close>
  and \<^verbatim>\<open>undefined\<close> elements printing as nothing.
\<close>

fun ToString :: "(jsnum \<Rightarrow> jsstring) \<Rightarrow> jsval \<Rightarrow> exn + jsstring"
  and join_elems :: "(jsnum \<Rightarrow> jsstring) \<Rightarrow> jsval list \<Rightarrow> exn + jsstring"
where
  "ToString pr JUndefined = Inr (js ''undefined'')"
| "ToString pr JNull = Inr (js ''null'')"
| "ToString pr (JBool b) = Inr (js (if b then ''true'' else ''false''))"
| "ToString pr (JNum n) = Inr (pr n)"
| "ToString pr (JStr s) = Inr s"
| "ToString pr (JArr xs) = join_elems pr xs"
| "ToString pr (JObj kvs) =
     (if has_own kvs (js ''toString'') then Inl TypeError else Inr (js ''[object Object]''))"
| "join_elems pr [] = Inr []"
| "join_elems pr (x # xs) =
     (case (if x = JUndefined \<or> x = JNull then Inr [] else ToString pr x) of
        Inl e \<Rightarrow> Inl e
      | Inr a \<Rightarrow>
          (if xs = [] then Inr a
           else case join_elems pr xs of
                  Inl e \<Rightarrow> Inl e
                | Inr b \<Rightarrow> Inr (a @ js '','' @ b)))"

text \<open>\<^verbatim>\<open>Date.parse\<close>: the empty string is a date in no format; every other
  string is the engine's decision.\<close>

definition Date_parse :: "env \<Rightarrow> jsstring \<Rightarrow> timevalue" where
  "Date_parse env s = (if s = [] then None else date_format env s)"

text \<open>\<^verbatim>\<open>TimeClip\<close> of a number: finite, at most 8.64e15 in magnitude, truncated
  towards zero.\<close>

definition TimeClip :: "jsnum \<Rightarrow> timevalue" where
  "TimeClip n =
     (case n of
        Finite q \<Rightarrow>
          (if \<bar>q\<bar> > 8640000000000000 then None
           else Some (if q \<ge> 0 then \<lfloor>q\<rfloor> else \<lceil>q\<rceil>))
      | _ \<Rightarrow> None)"

fun new_Date :: "env \<Rightarrow> jsval \<Rightarrow> exn + timevalue" where
  "new_Date env JUndefined = Inr None"
| "new_Date env JNull = Inr (Some 0)"
| "new_Date env (JBool b) = Inr (Some (if b then 1 else 0))"
| "new_Date env (JNum n) = Inr (TimeClip n)"
| "new_Date env (JStr s) = Inr (Date_parse env s)"
| "new_Date env v =
     (case ToString (number_toString env) v of
        Inl e \<Rightarrow> Inl e
      | Inr s \<Rightarrow> Inr (Date_parse env s))"

section \<open>The handler of \<^verbatim>\<open>POST /sessions\<close>\<close>

subsection \<open>Responses and the record of what ran\<close>

text \<open>
  The four shapes of JSON the handler sends: \<^verbatim>\<open>{error}\<close>,
  \<^verbatim>\<open>{error, sessionId, sessionData}\<close>,
  \<^verbatim>\<open>{message, sessionId, databaseId, sessionData}\<close> and \<^verbatim>\<open>{error, message}\<close>.
\<close>

datatype payload =
    Error jsstring
  | ErrorWithSession jsstring jsstring session_data
  | Created jsstring jsstring jsstring session_doc
  | ErrorMessage jsstring jsstring

record response =
  status :: nat
  json :: payload

text \<open>
  Console output is not modelled. What the claims need of the effects is their order:
  each entry of the trace is one statement that ran, with the value of
  \<^verbatim>\<open>sessionData\<close> right after it. \<open>Await st ok\<close> is the call of stage \<open>st\<close>
  and whether its promise was fulfilled; \<open>Save ok\<close> is the call of
  \<^verbatim>\<open>newSession.save()\<close> and whether it was fulfilled.
\<close>

datatype stage = Compress | ExtractAudio

datatype action = Construct | Await stage bool | SetFlag stage | Save bool

type_synonym trace = "(action \<times> session_data) list"

subsection \<open>The media stages of the repository\<close>

text \<open>Lines 26-48: both simulated stages wait and return \<^verbatim>\<open>true\<close>.\<close>

definition simulateVideoCompression :: "jsstring \<Rightarrow> exn + bool" where
  "simulateVideoCompression sessionId = Inr True"

definition simulateAudioExtraction :: "jsstring \<Rightarrow> exn + bool" where
  "simulateAudioExtraction sessionId = Inr True"

subsection \<open>Validation (lines 56-101)\<close>

definition MISSING_FIELDS :: jsstring where
  "MISSING_FIELDS = js ''Missing required fields: userId, startTime, endTime''"

definition BAD_USERID :: jsstring where
  "BAD_USERID = js ''userId must be a non-empty string''"

definition BAD_START :: jsstring where
  "BAD_START = js ''startTime must be a valid date''"

definition BAD_END :: jsstring where
  "BAD_END = js ''endTime must be a valid date''"

definition BAD_ORDER :: jsstring where
  "BAD_ORDER = js ''endTime must be after startTime''"

definition TOO_LONG :: jsstring where
  "TOO_LONG = js ''Session duration cannot exceed 8 hours''"

definition maxDuration :: int where
  "maxDuration = 8 * 60 * 60 * 1000"

datatype validation = Rejected jsstring | Accepted jsstring int int

text \<open>
  \<open>Inl\<close> is an exception that leaves the validation block (it can only come from
  \<^verbatim>\<open>new Date\<close>, and both dates are constructed before either is checked);
  \<open>Rejected\<close> is an early \<^verbatim>\<open>return res.status(400)\<close>; \<open>Accepted\<close> carries
  the untrimmed \<^verbatim>\<open>userId\<close> and the two time values on to line 103.
  \<^verbatim>\<open>typeof userId !== 'string'\<close> is the case distinction on \<open>JStr\<close>. Time
  values are integers; the difference of two of them is computed exactly here, and
  where a double would round it the comparison with \<^verbatim>\<open>maxDuration\<close> comes out
  the same, rounding being monotone and \<^verbatim>\<open>maxDuration\<close> a double itself.
\<close>

definition validate :: "env \<Rightarrow> jsval \<Rightarrow> jsval \<Rightarrow> jsval \<Rightarrow> exn + validation" where
  "validate env userId' startTime' endTime' =
     (if \<not> truthy userId' \<or> \<not> truthy startTime' \<or> \<not> truthy endTime'
      then Inr (Rejected MISSING_FIELDS)
      else case userId' of
        JStr u \<Rightarrow>
          (if length (trim u) = 0 then Inr (Rejected BAD_USERID)
           else case new_Date env startTime' of
             Inl e \<Rightarrow> Inl e
           | Inr startDate \<Rightarrow>
               (case new_Date env endTime' of
                  Inl e \<Rightarrow> Inl e
                | Inr endDate \<Rightarrow>
                    (case startDate of
                       None \<Rightarrow> Inr (Rejected BAD_START)
                     | Some s \<Rightarrow>
                         (case endDate of
                            None \<Rightarrow> Inr (Rejected BAD_END)
                          | Some e \<Rightarrow>
                              if e \<le> s then Inr (Rejected BAD_ORDER)
                              else if e - s > maxDuration then Inr (Rejected TOO_LONG)
                              else Inr (Accepted u s e)))))
      | _ \<Rightarrow> Inr (Rejected BAD_USERID))"

subsection \<open>The media pipeline (lines 121-138)\<close>

definition set_compressed :: "session_data \<Rightarrow> session_data" where
  "set_compressed d = d\<lparr>media := (media d)\<lparr>compressed := True\<rparr>\<rparr>"

definition set_audioExtracted :: "session_data \<Rightarrow> session_data" where
  "set_audioExtracted d = d\<lparr>media := (media d)\<lparr>audioExtracted := True\<rparr>\<rparr>"

text \<open>
  The result is the exception caught by \<^verbatim>\<open>catch (processingError)\<close>, if any,
  the value of \<^verbatim>\<open>sessionData\<close> when the block is left, and the statements that ran.
\<close>

definition process_media ::
    "env \<Rightarrow> jsstring \<Rightarrow> session_data \<Rightarrow> exn option \<times> session_data \<times> trace" where
  "process_media env sessionId d0 =
     (case compress_stage env sessionId of
        Inl e \<Rightarrow> (Some e, d0, [(Await Compress False, d0)])
      | Inr _ \<Rightarrow>
          (let d1 = set_compressed d0 in
           case extract_stage env sessionId of
             Inl e \<Rightarrow>
               (Some e, d1,
                [(Await Compress True, d0), (SetFlag Compress, d1),
                 (Await ExtractAudio False, d1)])
           | Inr _ \<Rightarrow>
               (let d2 = set_audioExtracted d1 in
                (None, d2,
                 [(Await Compress True, d0), (SetFlag Compress, d1),
                  (Await ExtractAudio True, d1), (SetFlag ExtractAudio, d2)]))))"

subsection \<open>Saving (lines 141-162, with the schema of Session.js)\<close>

text \<open>
  \<^verbatim>\<open>new Session(sessionData)\<close>: the schema of Session.js has exactly the fields
  of \<^verbatim>\<open>sessionData\<close> with the types the handler gives them, so the document
  holds the same values (no default applies) under a fresh \<^verbatim>\<open>_id\<close>.
  \<^verbatim>\<open>save()\<close> is fulfilled with the document itself or rejected.
\<close>

definition Session_new :: "env \<Rightarrow> session_data \<Rightarrow> session_doc" where
  "Session_new env d = \<lparr>doc_id = new_object_id env, doc_data = d\<rparr>"

definition SAVED :: jsstring where
  "SAVED = js ''Session created, processed, and saved successfully''"

definition PROCESSING_FAILED :: jsstring where
  "PROCESSING_FAILED = js ''Media processing failed''"

definition SAVE_FAILED :: jsstring where
  "SAVE_FAILED = js ''Failed to save session to database''"

definition INTERNAL_ERROR :: jsstring where
  "INTERNAL_ERROR = js ''Internal server error''"

definition INTERNAL_MESSAGE :: jsstring where
  "INTERNAL_MESSAGE = js ''An unexpected error occurred while processing the session''"

definition save_session :: "env \<Rightarrow> jsstring \<Rightarrow> session_data \<Rightarrow> response \<times> trace" where
  "save_session env sessionId d =
     (let newSession = Session_new env d in
      case store_save env newSession of
        None \<Rightarrow>
          (\<lparr>status = 201, json = Created SAVED sessionId (doc_id newSession) newSession\<rparr>,
           [(Save True, d)])
      | Some dbError \<Rightarrow>
          (\<lparr>status = 500, json = ErrorWithSession SAVE_FAILED sessionId d\<rparr>,
           [(Save False, d)]))"

subsection \<open>The whole handler (lines 51-170)\<close>

text \<open>\<^verbatim>\<open>`session_${Date.now()}_${Math.random().toString(36)}`\<close> (line 104).\<close>

definition make_sessionId :: "env \<Rightarrow> jsstring" where
  "make_sessionId env =
     js ''session_'' @ number_toString env (Finite (of_int (now_sessionId env)))
       @ js ''_'' @ random_base36 env"

definition make_sessionData :: "env \<Rightarrow> jsstring \<Rightarrow> int \<Rightarrow> int \<Rightarrow> session_data" where
  "make_sessionData env u startDate endDate =
     \<lparr>userId = trim u, startTime = startDate, endTime = endDate,
      media = \<lparr>compressed = False, audioExtracted = False\<rparr>,
      createdAt = now_createdAt env\<rparr>"

definition internal_error :: response where
  "internal_error = \<lparr>status = 500, json = ErrorMessage INTERNAL_ERROR INTERNAL_MESSAGE\<rparr>"

definition post_sessions :: "env \<Rightarrow> jsval \<Rightarrow> response \<times> trace" where
  "post_sessions env body =
     (case destructure body of
        Inl error \<Rightarrow> (internal_error, [])
      | Inr (userId', startTime', endTime') \<Rightarrow>
          (case validate env userId' startTime' endTime' of
             Inl error \<Rightarrow> (internal_error, [])
           | Inr (Rejected reason) \<Rightarrow> (\<lparr>status = 400, json = Error reason\<rparr>, [])
           | Inr (Accepted u startDate endDate) \<Rightarrow>
               (let sessionId = make_sessionId env;
                    d0 = make_sessionData env u startDate endDate
                in case process_media env sessionId d0 of
                     (Some processingError, d, tr) \<Rightarrow>
                       (\<lparr>status = 500, json = ErrorWithSession PROCESSING_FAILED sessionId d\<rparr>,
                        (Construct, d0) # tr)
                   | (None, d, tr) \<Rightarrow>
                       (case save_session env sessionId d of
                          (res, tr') \<Rightarrow> (res, (Construct, d0) # tr @ tr')))))"

section \<open>The validation rules, each on its own\<close>

text \<open>
  The six rules of the validator in the order of the specification, written as
  independent predicates on the three fields and the two dates constructed from
  them, so that "the first violated rule" has a meaning that does not depend on the
  nesting of the handler. Field presence is the handler's own test, truthiness. A
  comparison with an Invalid Date is false in JavaScript, so the two interval rules
  can only be violated by two valid dates.
\<close>

datatype rule =
  FieldsPresent | UserIdText | StartTimeValid | EndTimeValid | EndAfterStart | WithinMaxDuration

definition rules_in_order :: "rule list" where
  "rules_in_order =
     [FieldsPresent, UserIdText, StartTimeValid, EndTimeValid, EndAfterStart, WithinMaxDuration]"

fun reason :: "rule \<Rightarrow> jsstring" where
  "reason FieldsPresent = MISSING_FIELDS"
| "reason UserIdText = BAD_USERID"
| "reason StartTimeValid = BAD_START"
| "reason EndTimeValid = BAD_END"
| "reason EndAfterStart = BAD_ORDER"
| "reason WithinMaxDuration = TOO_LONG"

fun rule_holds :: "rule \<Rightarrow> jsval \<times> jsval \<times> jsval \<Rightarrow> timevalue \<times> timevalue \<Rightarrow> bool" where
  "rule_holds FieldsPresent (u, s, e) dates = (truthy u \<and> truthy s \<and> truthy e)"
| "rule_holds UserIdText (u, s, e) dates = (case u of JStr x \<Rightarrow> trim x \<noteq> [] | _ \<Rightarrow> False)"
| "rule_holds StartTimeValid flds (startDate, endDate) = (startDate \<noteq> None)"
| "rule_holds EndTimeValid flds (startDate, endDate) = (endDate \<noteq> None)"
| "rule_holds EndAfterStart flds (startDate, endDate) =
     (case (startDate, endDate) of (Some a, Some b) \<Rightarrow> a < b | _ \<Rightarrow> True)"
| "rule_holds WithinMaxDuration flds (startDate, endDate) =
     (case (startDate, endDate) of (Some a, Some b) \<Rightarrow> b - a \<le> 28800000 | _ \<Rightarrow> True)"

definition first_violation ::
    "jsval \<times> jsval \<times> jsval \<Rightarrow> timevalue \<times> timevalue \<Rightarrow> rule option" where
  "first_violation flds dates = find (\<lambda>r. \<not> rule_holds r flds dates) rules_in_order"

text \<open>The values the interface of the specification allows in a field: text, or
  nothing.\<close>

fun text_or_absent :: "jsval \<Rightarrow> bool" where
  "text_or_absent JUndefined = True"
| "text_or_absent JNull = True"
| "text_or_absent (JStr s) = True"
| "text_or_absent v = False"

section \<open>Reading a response and a trace\<close>

fun databaseId :: "payload \<Rightarrow> jsstring option" where
  "databaseId (Created message sessionId dbId doc) = Some dbId"
| "databaseId p = None"

fun error_text :: "payload \<Rightarrow> jsstring option" where
  "error_text (Error e) = Some e"
| "error_text (ErrorWithSession e sessionId d) = Some e"
| "error_text (ErrorMessage e m) = Some e"
| "error_text (Created message sessionId dbId doc) = None"

definition flag_of :: "stage \<Rightarrow> session_data \<Rightarrow> bool" where
  "flag_of st d =
     (case st of Compress \<Rightarrow> compressed (media d) | ExtractAudio \<Rightarrow> audioExtracted (media d))"

definition set_flag :: "stage \<Rightarrow> session_data \<Rightarrow> session_data" where
  "set_flag st d = (case st of Compress \<Rightarrow> set_compressed d | ExtractAudio \<Rightarrow> set_audioExtracted d)"

section \<open>Concrete requests and engines for the closed examples\<close>

definition request :: "jsval \<Rightarrow> jsval \<Rightarrow> jsval \<Rightarrow> jsval" where
  "request u s e = JObj [(js ''userId'', u), (js ''startTime'', s), (js ''endTime'', e)]"

text \<open>A parser that knows the instants of 1 January 2024 used below, as every
  engine reads them.\<close>

definition sample_format :: "jsstring \<Rightarrow> timevalue" where
  "sample_format s =
     (if s = js ''2024-01-01T10:00:00Z'' then Some 1704103200000
      else if s = js ''2024-01-01T12:00:00Z'' then Some 1704110400000
      else if s = js ''2024-01-01T18:00:00Z'' then Some 1704132000000
      else if s = js ''2024-01-01T18:00:00.001Z'' then Some 1704132000001
      else if s = js ''2024-01-01T19:00:00Z'' then Some 1704135600000
      else None)"

fun digits :: "nat \<Rightarrow> string" where
  "digits n =
     (if n < 10 then [char_of (48 + n)] else digits (n div 10) @ [char_of (48 + n mod 10)])"

definition sample_toString :: "jsnum \<Rightarrow> jsstring" where
  "sample_toString n =
     (case n of
        Finite q \<Rightarrow> js ((if q < 0 then ''-'' else []) @ digits (nat \<lfloor>\<bar>q\<bar>\<rfloor>))
      | PosInfinity \<Rightarrow> js ''Infinity''
      | NegInfinity \<Rightarrow> js ''-Infinity''
      | NaN \<Rightarrow> js ''NaN'')"

definition failing_stage :: "jsstring \<Rightarrow> exn + bool" where
  "failing_stage sessionId = Inl (Failure (js ''ffmpeg exited with code 1''))"

text \<open>The repository as it is, with a store that accepts every document.\<close>

definition sample_env :: env where
  "sample_env =
     \<lparr>date_format = sample_format, number_toString = sample_toString,
      now_sessionId = 1704140000000, random_base36 = js ''0.4fzyo82mvyr'',
      now_createdAt = 1704140000001,
      compress_stage = simulateVideoCompression, extract_stage = simulateAudioExtraction,
      new_object_id = js ''6592f1a0c3b4d5e6f7a8b9c0'', store_save = (\<lambda>doc. None)\<rparr>"

definition compress_fails_env :: env where
  "compress_fails_env = sample_env\<lparr>compress_stage := failing_stage\<rparr>"

definition extract_fails_env :: env where
  "extract_fails_env = sample_env\<lparr>extract_stage := failing_stage\<rparr>"

definition store_down_env :: env where
  "store_down_env = sample_env\<lparr>store_save := (\<lambda>doc. Some (Failure (js ''connection refused'')))\<rparr>"

definition alice_request :: jsval where
  "alice_request =
     request (JStr (js ''alice'')) (JStr (js ''2024-01-01T10:00:00Z''))
       (JStr (js ''2024-01-01T12:00:00Z''))"

definition empty_userId_request :: jsval where
  "empty_userId_request =
     request (JStr []) (JStr (js ''2024-01-01T10:00:00Z''))
       (JStr (js ''2024-01-01T12:00:00Z''))"

definition zero_startTime_request :: jsval where
  "zero_startTime_request =
     request (JStr (js ''alice'')) (JNum (Finite 0)) (JStr (js ''2024-01-01T12:00:00Z''))"

definition unconvertible_startTime_request :: jsval where
  "unconvertible_startTime_request =
     request (JStr (js ''alice'')) (JObj [(js ''toString'', JNum (Finite 1))])
       (JStr (js ''2024-01-01T12:00:00Z''))"

definition unconvertible_endTime_request :: jsval where
  "unconvertible_endTime_request =
     request (JStr (js ''alice'')) (JStr (js ''2024-01-01T10:00:00Z''))
       (JObj [(js ''toString'', JNum (Finite 1))])"

definition unparsed_startTime_unconvertible_endTime_request :: jsval where
  "unparsed_startTime_unconvertible_endTime_request =
     request (JStr (js ''alice'')) (JStr (js ''soon''))
       (JObj [(js ''toString'', JNum (Finite 1))])"

definition alice_data :: "bool \<Rightarrow> bool \<Rightarrow> session_data" where
  "alice_data c a =
     \<lparr>userId = js ''alice'', startTime = 1704103200000, endTime = 1704110400000,
      media = \<lparr>compressed = c, audioExtracted = a\<rparr>, createdAt = 1704140000001\<rparr>"

section \<open>Basic facts\<close>

subsection \<open>String literals\<close>


lemma char16_inj: "(of_nat (of_char x) :: 16 word) = of_nat (of_char y) \<longleftrightarrow> x = y"
proof
  assume h: "(of_nat (of_char x) :: 16 word) = of_nat (of_char y)"
  have bx: "(of_char x :: nat) < 2 ^ 16"
    by (rule order_less_trans [OF nat_of_char_less_256]) simp
  have by': "(of_char y :: nat) < 2 ^ 16"
    by (rule order_less_trans [OF nat_of_char_less_256]) simp
  from h have "unat (of_nat (of_char x) :: 16 word) = unat (of_nat (of_char y) :: 16 word)" by simp
  with bx by' have "(of_char x :: nat) = of_char y" by (simp add: unat_of_nat)
  then show "x = y" by simp
qed simp

lemma js_eq_iff: "js a = js b \<longleftrightarrow> a = b"
proof -
  have "inj (\<lambda>c::char. (of_nat (of_char c) :: 16 word))"
    by (rule injI) (simp add: char16_inj)
  then show ?thesis unfolding js_def by (simp add: inj_map_eq_map)
qed

lemma js_eq_Nil: "js a = [] \<longleftrightarrow> a = []" by (simp add: js_def)

lemma reasons_distinct:
  "distinct [MISSING_FIELDS, BAD_USERID, BAD_START, BAD_END, BAD_ORDER, TOO_LONG]"
  by (simp add: MISSING_FIELDS_def BAD_USERID_def BAD_START_def BAD_END_def BAD_ORDER_def
      TOO_LONG_def js_eq_iff)

lemma failure_texts_distinct: "distinct [PROCESSING_FAILED, SAVE_FAILED, INTERNAL_ERROR]"
  by (simp add: PROCESSING_FAILED_def SAVE_FAILED_def INTERNAL_ERROR_def js_eq_iff)

lemma destructure_request: "destructure (request u s e) = Inr (u, s, e)"
  by (simp add: destructure_def request_def get_own_def js_eq_iff)

lemma validate_rejects_first_violation:
  assumes "first_violation (u, s, e) (sd, ed) = Some r"
    and "r = FieldsPresent \<or> r = UserIdText \<or> (new_Date env s = Inr sd \<and> new_Date env e = Inr ed)"
  shows "validate env u s e = Inr (Rejected (reason r))"
  using assms
  by (auto simp: first_violation_def rules_in_order_def validate_def maxDuration_def
      split: if_splits jsval.splits option.splits)

lemma validate_accepts_no_violation:
  assumes "first_violation (u, s, e) (sd, ed) = None"
    and "new_Date env s = Inr sd" and "new_Date env e = Inr ed"
  shows "\<exists>x a b. u = JStr x \<and> sd = Some a \<and> ed = Some b
           \<and> validate env u s e = Inr (Accepted x a b)"
  using assms
  by (auto simp: first_violation_def rules_in_order_def validate_def maxDuration_def
      split: if_splits jsval.splits option.splits)

lemma validate_throws:
  assumes "rule_holds FieldsPresent (u, s, e) (sd, ed)"
    and "rule_holds UserIdText (u, s, e) (sd, ed)"
    and "new_Date env s = Inl x \<or> new_Date env e = Inl x"
  shows "\<exists>y. validate env u s e = Inl y"
  using assms
  by (auto simp: validate_def split: jsval.splits sum.splits)

lemma post_sessions_rejected:
  "destructure body = Inr (u, s, e) \<Longrightarrow> validate env u s e = Inr (Rejected r)
   \<Longrightarrow> post_sessions env body = (\<lparr>status = 400, json = Error r\<rparr>, [])"
  by (simp add: post_sessions_def)

lemma post_sessions_thrown:
  "destructure body = Inr (u, s, e) \<Longrightarrow> validate env u s e = Inl x
   \<Longrightarrow> post_sessions env body = (internal_error, [])"
  by (simp add: post_sessions_def)

lemma post_sessions_compress_fails:
  assumes "destructure body = Inr (u, s, e)" and "validate env u s e = Inr (Accepted x a b)"
    and "compress_stage env (make_sessionId env) = Inl ex"
  shows "post_sessions env body =
    (\<lparr>status = 500,
      json = ErrorWithSession PROCESSING_FAILED (make_sessionId env) (make_sessionData env x a b)\<rparr>,
     [(Construct, make_sessionData env x a b), (Await Compress False, make_sessionData env x a b)])"
  using assms by (simp add: post_sessions_def process_media_def Let_def)

lemma post_sessions_extract_fails:
  assumes "destructure body = Inr (u, s, e)" and "validate env u s e = Inr (Accepted x a b)"
    and "compress_stage env (make_sessionId env) = Inr r1"
    and "extract_stage env (make_sessionId env) = Inl ex"
  shows "post_sessions env body =
    (\<lparr>status = 500,
      json = ErrorWithSession PROCESSING_FAILED (make_sessionId env)
               (set_compressed (make_sessionData env x a b))\<rparr>,
     [(Construct, make_sessionData env x a b),
      (Await Compress True, make_sessionData env x a b),
      (SetFlag Compress, set_compressed (make_sessionData env x a b)),
      (Await ExtractAudio False, set_compressed (make_sessionData env x a b))])"
  using assms by (simp add: post_sessions_def process_media_def Let_def)

lemma post_sessions_save_fails:
  assumes "destructure body = Inr (u, s, e)" and "validate env u s e = Inr (Accepted x a b)"
    and "compress_stage env (make_sessionId env) = Inr r1"
    and "extract_stage env (make_sessionId env) = Inr r2"
    and "store_save env
           (Session_new env (set_audioExtracted (set_compressed (make_sessionData env x a b))))
         = Some ex"
  shows "post_sessions env body =
    (\<lparr>status = 500,
      json = ErrorWithSession SAVE_FAILED (make_sessionId env)
               (set_audioExtracted (set_compressed (make_sessionData env x a b)))\<rparr>,
     [(Construct, make_sessionData env x a b),
      (Await Compress True, make_sessionData env x a b),
      (SetFlag Compress, set_compressed (make_sessionData env x a b)),
      (Await ExtractAudio True, set_compressed (make_sessionData env x a b)),
      (SetFlag ExtractAudio, set_audioExtracted (set_compressed (make_sessionData env x a b))),
      (Save False, set_audioExtracted (set_compressed (make_sessionData env x a b)))])"
  using assms by (simp add: post_sessions_def process_media_def save_session_def Let_def)

lemma post_sessions_saved:
  assumes "destructure body = Inr (u, s, e)" and "validate env u s e = Inr (Accepted x a b)"
    and "compress_stage env (make_sessionId env) = Inr r1"
    and "extract_stage env (make_sessionId env) = Inr r2"
    and "store_save env
           (Session_new env (set_audioExtracted (set_compressed (make_sessionData env x a b))))
         = None"
  shows "post_sessions env body =
    (\<lparr>status = 201,
      json = Created SAVED (make_sessionId env) (new_object_id env)
               (Session_new env (set_audioExtracted (set_compressed (make_sessionData env x a b))))\<rparr>,
     [(Construct, make_sessionData env x a b),
      (Await Compress True, make_sessionData env x a b),
      (SetFlag Compress, set_compressed (make_sessionData env x a b)),
      (Await ExtractAudio True, set_compressed (make_sessionData env x a b)),
      (SetFlag ExtractAudio, set_audioExtracted (set_compressed (make_sessionData env x a b))),
      (Save True, set_audioExtracted (set_compressed (make_sessionData env x a b)))])"
  using assms by (simp add: post_sessions_def process_media_def save_session_def Let_def Session_new_def)

lemma sample_env_fields:
  "date_format sample_env = sample_format"
  "number_toString sample_env = sample_toString"
  "now_createdAt sample_env = 1704140000001"
  "compress_stage sample_env = simulateVideoCompression"
  "extract_stage sample_env = simulateAudioExtraction"
  "new_object_id sample_env = js ''6592f1a0c3b4d5e6f7a8b9c0''"
  "store_save sample_env = (\<lambda>doc. None)"
  by (simp_all add: sample_env_def)

lemma trim_alice: "trim (js ''alice'') = js ''alice''"
  by (simp add: trim_def js_def is_whitespace_def)

lemma validate_alice:
  assumes "date_format env = sample_format"
  shows "validate env (JStr (js ''alice'')) (JStr (js ''2024-01-01T10:00:00Z''))
          (JStr (js ''2024-01-01T12:00:00Z''))
        = Inr (Accepted (js ''alice'') 1704103200000 1704110400000)"
  using assms
  by (simp add: validate_def trim_alice js_eq_Nil js_eq_iff Date_parse_def sample_format_def
      maxDuration_def)

lemma sessionId_sample: "make_sessionId sample_env = js ''session_1704140000000_0.4fzyo82mvyr''"
  by (simp add: make_sessionId_def sample_env_def sample_toString_def js_def)

subsection \<open>The interface of the specification\<close>

text \<open>On the values the specification allows in a field, truthiness is "present and
  non-empty", and constructing a date never throws.\<close>

lemma presence_of_text:
  "text_or_absent v \<Longrightarrow> truthy v \<longleftrightarrow> v \<noteq> JUndefined \<and> v \<noteq> JNull \<and> v \<noteq> JStr []"
  by (cases v) simp_all

lemma new_Date_of_text: "text_or_absent v \<Longrightarrow> \<exists>t. new_Date env v = Inr t"
  by (cases v) simp_all

text \<open>More generally, only an array or an object can make \<^verbatim>\<open>new Date\<close> throw.\<close>

lemma new_Date_of_primitive:
  "new_Date env v = Inl x \<Longrightarrow> (\<exists>xs. v = JArr xs) \<or> (\<exists>kvs. v = JObj kvs)"
  by (cases v) simp_all

subsection \<open>Validation and the handler, case by case\<close>

lemma processed_record:
  "set_audioExtracted (set_compressed (make_sessionData env x a b)) =
     \<lparr>userId = trim x, startTime = a, endTime = b,
      media = \<lparr>compressed = True, audioExtracted = True\<rparr>, createdAt = now_createdAt env\<rparr>"
  by (simp add: set_audioExtracted_def set_compressed_def make_sessionData_def)

lemma destructure_fields:
  assumes "get_prop body (js ''userId'') = JStr u"
  shows "destructure body =
    Inr (JStr u, get_prop body (js ''startTime''), get_prop body (js ''endTime''))"
  using assms by (auto simp: destructure_def)

lemma validate_text_accepted:
  assumes "trim u \<noteq> []"
    and "new_Date env (JStr a) = Inr (Some s)" and "new_Date env (JStr b) = Inr (Some e)"
    and "0 < e - s" and "e - s \<le> 8 * 60 * 60 * 1000"
  shows "validate env (JStr u) (JStr a) (JStr b) = Inr (Accepted u s e)"
proof -
  from assms(1) have u: "u \<noteq> []" by (auto simp: trim_def)
  from assms(2) have a: "a \<noteq> []" by (auto simp: Date_parse_def split: if_splits)
  from assms(3) have b: "b \<noteq> []" by (auto simp: Date_parse_def split: if_splits)
  show ?thesis using assms u a b by (simp add: validate_def maxDuration_def)
qed

lemma trace_shapes:
  "\<exists>d0 ok. media d0 = \<lparr>compressed = False, audioExtracted = False\<rparr>
     \<and> (snd (post_sessions env body) = []
        \<or> snd (post_sessions env body) = [(Construct, d0), (Await Compress False, d0)]
        \<or> snd (post_sessions env body) =
            [(Construct, d0), (Await Compress True, d0), (SetFlag Compress, set_compressed d0),
             (Await ExtractAudio False, set_compressed d0)]
        \<or> snd (post_sessions env body) =
            [(Construct, d0), (Await Compress True, d0), (SetFlag Compress, set_compressed d0),
             (Await ExtractAudio True, set_compressed d0),
             (SetFlag ExtractAudio, set_audioExtracted (set_compressed d0)),
             (Save ok, set_audioExtracted (set_compressed d0))])"
proof (cases "destructure body")
  case (Inl x)
  then show ?thesis
    by (intro exI [of _ "make_sessionData env [] 0 0"])
      (simp add: post_sessions_def make_sessionData_def)
next
  case (Inr f)
  obtain u s e where f: "f = (u, s, e)" by (cases f) auto
  show ?thesis
  proof (cases "validate env u s e")
    case (Inl x)
    with Inr f show ?thesis
      by (intro exI [of _ "make_sessionData env [] 0 0"])
        (simp add: post_sessions_def make_sessionData_def)
  next
    case v: (Inr r)
    show ?thesis
    proof (cases r)
      case (Rejected t)
      with Inr f v show ?thesis
        by (intro exI [of _ "make_sessionData env [] 0 0"])
          (simp add: post_sessions_def make_sessionData_def)
    next
      case (Accepted x a b)
      have d: "destructure body = Inr (u, s, e)" using Inr f by simp
      have va: "validate env u s e = Inr (Accepted x a b)" using v Accepted by simp
      have m: "media (make_sessionData env x a b) = \<lparr>compressed = False, audioExtracted = False\<rparr>"
        by (simp add: make_sessionData_def)
      show ?thesis
      proof (cases "compress_stage env (make_sessionId env)")
        case (Inl ex)
        from post_sessions_compress_fails [OF d va Inl] m show ?thesis by auto
      next
        case c: (Inr r1)
        show ?thesis
        proof (cases "extract_stage env (make_sessionId env)")
          case (Inl ex)
          from post_sessions_extract_fails [OF d va c Inl] m show ?thesis by auto
        next
          case x: (Inr r2)
          show ?thesis
          proof (cases "store_save env (Session_new env
                   (set_audioExtracted (set_compressed (make_sessionData env x a b))))")
            case None
            from post_sessions_saved [OF d va c x None] m show ?thesis by auto
          next
            case (Some ex)
            from post_sessions_save_fails [OF d va c x Some] m show ?thesis by auto
          qed
        qed
      qed
    qed
  qed
qed

lemma set_flag_exactly:
  "flag_of st (set_flag st d) \<and> (st' \<noteq> st \<longrightarrow> flag_of st' (set_flag st d) = flag_of st' d)
   \<and> userId (set_flag st d) = userId d \<and> startTime (set_flag st d) = startTime d
   \<and> endTime (set_flag st d) = endTime d \<and> createdAt (set_flag st d) = createdAt d"
  by (cases st; cases st')
    (simp_all add: flag_of_def set_flag_def set_compressed_def set_audioExtracted_def)

subsection \<open>The concrete requests\<close>

lemma whitespace_userId: "trim (js ''   '') = []"
  by (simp add: trim_def js_def is_whitespace_def)

lemma derived_env_fields:
  "date_format compress_fails_env = sample_format"
  "date_format extract_fails_env = sample_format"
  "date_format store_down_env = sample_format"
  "compress_stage compress_fails_env = failing_stage"
  "compress_stage extract_fails_env = simulateVideoCompression"
  "extract_stage extract_fails_env = failing_stage"
  "compress_stage store_down_env = simulateVideoCompression"
  "extract_stage store_down_env = simulateAudioExtraction"
  "store_save store_down_env = (\<lambda>doc. Some (Failure (js ''connection refused'')))"
  "now_createdAt compress_fails_env = 1704140000001"
  "now_createdAt extract_fails_env = 1704140000001"
  "now_createdAt store_down_env = 1704140000001"
  "make_sessionId compress_fails_env = make_sessionId sample_env"
  "make_sessionId extract_fails_env = make_sessionId sample_env"
  "make_sessionId store_down_env = make_sessionId sample_env"
  by (simp_all add: compress_fails_env_def extract_fails_env_def store_down_env_def
      sample_env_def make_sessionId_def)

lemma alice_destructured:
  "destructure alice_request =
     Inr (JStr (js ''alice''), JStr (js ''2024-01-01T10:00:00Z''),
          JStr (js ''2024-01-01T12:00:00Z''))"
  by (simp add: alice_request_def destructure_request)

lemma unconvertible_thrown:
  "post_sessions env unconvertible_startTime_request = (internal_error, [])"
proof -
  have "validate env (JStr (js ''alice'')) (JObj [(js ''toString'', JNum (Finite 1))])
          (JStr (js ''2024-01-01T12:00:00Z'')) = Inl TypeError"
    by (simp add: validate_def trim_alice js_eq_Nil has_own_def)
  then show ?thesis
    by (simp add: unconvertible_startTime_request_def
        post_sessions_thrown [OF destructure_request])
qed

lemma unconvertible_value: "new_Date env (JObj [(js ''toString'', JNum (Finite 1))]) = Inl TypeError"
  by (simp add: has_own_def)

lemma undefined_body_thrown: "post_sessions env JUndefined = (internal_error, [])"
  by (simp add: post_sessions_def destructure_def)

lemma alice_saved:
  "post_sessions sample_env alice_request =
    (\<lparr>status = 201,
      json = Created SAVED (make_sessionId sample_env) (new_object_id sample_env)
               \<lparr>doc_id = new_object_id sample_env, doc_data = alice_data True True\<rparr>\<rparr>,
     [(Construct, alice_data False False),
      (Await Compress True, alice_data False False),
      (SetFlag Compress, alice_data True False),
      (Await ExtractAudio True, alice_data True False),
      (SetFlag ExtractAudio, alice_data True True),
      (Save True, alice_data True True)])"
proof -
  have c: "compress_stage sample_env (make_sessionId sample_env) = Inr True"
    by (simp add: sample_env_fields simulateVideoCompression_def)
  have x: "extract_stage sample_env (make_sessionId sample_env) = Inr True"
    by (simp add: sample_env_fields simulateAudioExtraction_def)
  have v: "validate sample_env (JStr (js ''alice'')) (JStr (js ''2024-01-01T10:00:00Z''))
          (JStr (js ''2024-01-01T12:00:00Z''))
        = Inr (Accepted (js ''alice'') 1704103200000 1704110400000)"
    by (rule validate_alice) (simp add: sample_env_fields)
  have st: "store_save sample_env (Session_new sample_env (set_audioExtracted (set_compressed
      (make_sessionData sample_env (js ''alice'') 1704103200000 1704110400000)))) = None"
    by (simp add: sample_env_fields)
  show ?thesis
    by (simp add: post_sessions_saved [OF alice_destructured v c x st] make_sessionData_def
        set_compressed_def set_audioExtracted_def Session_new_def alice_data_def trim_alice
        sample_env_fields)
qed

section \<open>The claims\<close>

text \<open>
  C1. For every input whose \<^verbatim>\<open>userId\<close> is text that is non-empty after trimming
  and whose \<^verbatim>\<open>startTime\<close> and \<^verbatim>\<open>endTime\<close> are text that parses to valid
  times with \<open>0 < endTime - startTime \<le> 8 hours\<close>, if both media stages are
  fulfilled and the store accepts the document, the handler answers 201 with the saved
  document, in which \<^verbatim>\<open>media.compressed\<close> and \<^verbatim>\<open>media.audioExtracted\<close> are
  both true, and the last thing it did was the successful save.
\<close>

theorem intake_persists_valid_input:
  assumes "get_prop body (js ''userId'') = JStr u" and "trim u \<noteq> []"
    and "get_prop body (js ''startTime'') = JStr a" and "new_Date env (JStr a) = Inr (Some s)"
    and "get_prop body (js ''endTime'') = JStr b" and "new_Date env (JStr b) = Inr (Some e)"
    and "0 < e - s" and "e - s \<le> 8 * 60 * 60 * 1000"
    and "compress_stage env (make_sessionId env) = Inr r1"
    and "extract_stage env (make_sessionId env) = Inr r2"
    and "store_save env
           \<lparr>doc_id = new_object_id env,
            doc_data = \<lparr>userId = trim u, startTime = s, endTime = e,
              media = \<lparr>compressed = True, audioExtracted = True\<rparr>,
              createdAt = now_createdAt env\<rparr>\<rparr> = None"
  shows "fst (post_sessions env body) =
           \<lparr>status = 201,
            json = Created SAVED (make_sessionId env) (new_object_id env)
              \<lparr>doc_id = new_object_id env,
               doc_data = \<lparr>userId = trim u, startTime = s, endTime = e,
                 media = \<lparr>compressed = True, audioExtracted = True\<rparr>,
                 createdAt = now_createdAt env\<rparr>\<rparr>\<rparr>
         \<and> fst (last (snd (post_sessions env body))) = Save True"
proof -
  have d: "destructure body = Inr (JStr u, JStr a, JStr b)"
    using destructure_fields [OF assms(1)] assms(3,5) by simp
  have v: "validate env (JStr u) (JStr a) (JStr b) = Inr (Accepted u s e)"
    using assms(2,4,6,7,8) by (rule validate_text_accepted)
  have st: "store_save env
      (Session_new env (set_audioExtracted (set_compressed (make_sessionData env u s e)))) = None"
    using assms(11) by (simp add: processed_record Session_new_def)
  show ?thesis
    by (simp add: post_sessions_saved [OF d v assms(9,10) st] processed_record Session_new_def)
qed

theorem intake_persists_valid_input_witness:
  "fst (post_sessions sample_env alice_request) =
     \<lparr>status = 201,
      json = Created SAVED (js ''session_1704140000000_0.4fzyo82mvyr'')
        (js ''6592f1a0c3b4d5e6f7a8b9c0'')
        \<lparr>doc_id = js ''6592f1a0c3b4d5e6f7a8b9c0'', doc_data = alice_data True True\<rparr>\<rparr>"
  using intake_persists_valid_input [of alice_request "js ''alice''"
      "js ''2024-01-01T10:00:00Z''" sample_env 1704103200000
      "js ''2024-01-01T12:00:00Z''" 1704110400000 True True]
  by (simp add: alice_request_def request_def get_own_def js_eq_iff js_eq_Nil trim_alice
      Date_parse_def sample_env_fields sample_format_def simulateVideoCompression_def
      simulateAudioExtraction_def sessionId_sample alice_data_def)

text \<open>
  C2 says that validation returns on the first violated rule, with the reason of that
  rule. Lines 70-71 construct both dates before line 74 checks either. For the request
  \<^verbatim>\<open>{userId: "alice", startTime: "soon", endTime: {toString: 1}}\<close> the first
  violated rule is the third (\<^verbatim>\<open>startTime\<close> is not a date), but constructing
  the date of \<^verbatim>\<open>endTime\<close> throws first: validation gives no reason at all and
  the catch-all of line 163 answers with status 500.
\<close>

theorem validation_order_counterexample:
  "truthy (JStr (js ''alice'')) \<and> truthy (JStr (js ''soon''))
   \<and> truthy (JObj [(js ''toString'', JNum (Finite 1))])
   \<and> trim (js ''alice'') \<noteq> []
   \<and> new_Date sample_env (JStr (js ''soon'')) = Inr None
   \<and> validate sample_env (JStr (js ''alice'')) (JStr (js ''soon''))
        (JObj [(js ''toString'', JNum (Finite 1))]) = Inl TypeError
   \<and> validate sample_env (JStr (js ''alice'')) (JStr (js ''soon''))
        (JObj [(js ''toString'', JNum (Finite 1))]) \<noteq> Inr (Rejected BAD_START)
   \<and> post_sessions sample_env unparsed_startTime_unconvertible_endTime_request
        = (internal_error, [])
   \<and> status internal_error = 500"
proof -
  have v: "validate sample_env (JStr (js ''alice'')) (JStr (js ''soon''))
        (JObj [(js ''toString'', JNum (Finite 1))]) = Inl TypeError"
    by (simp add: validate_def trim_alice js_eq_Nil has_own_def)
  have p: "post_sessions sample_env unparsed_startTime_unconvertible_endTime_request
        = (internal_error, [])"
    using v
    by (simp add: unparsed_startTime_unconvertible_endTime_request_def
        post_sessions_thrown [OF destructure_request])
  have d: "new_Date sample_env (JStr (js ''soon'')) = Inr None"
    by (simp add: Date_parse_def sample_env_fields sample_format_def js_eq_iff js_eq_Nil)
  show ?thesis
    using v p d by (simp add: trim_alice js_eq_Nil internal_error_def)
qed

text \<open>
  C2, as the handler behaves: validation checks the six rules in the fixed order (field
  presence, userId text non-empty after trim, startTime valid, endTime valid, endTime
  after startTime, duration at most 8 hours) and stops at the first rule that does not
  hold, provided that, when the first two rules hold, both dates can be constructed:
  whichever later rules are violated as well, the one reason it gives is that of the
  first violated rule; it accepts exactly when no rule is violated; and the six
  reasons are pairwise distinct. The first two rules are decided before either date is
  constructed. When they hold and constructing one of the dates throws, validation
  gives no reason: the exception leaves the block.
\<close>

theorem validation_order_first_violation:
  "(first_violation (u, s, e) (sd, ed) = Some r
      \<and> (r = FieldsPresent \<or> r = UserIdText
          \<or> (new_Date env s = Inr sd \<and> new_Date env e = Inr ed))
     \<longrightarrow> validate env u s e = Inr (Rejected (reason r)))
   \<and> (first_violation (u, s, e) (sd, ed) = None
      \<and> new_Date env s = Inr sd \<and> new_Date env e = Inr ed
     \<longrightarrow> (\<exists>x a b. u = JStr x \<and> sd = Some a \<and> ed = Some b
            \<and> validate env u s e = Inr (Accepted x a b)))
   \<and> (rule_holds FieldsPresent (u, s, e) (sd, ed) \<and> rule_holds UserIdText (u, s, e) (sd, ed)
      \<and> (new_Date env s = Inl ex \<or> new_Date env e = Inl ex)
     \<longrightarrow> (\<exists>y. validate env u s e = Inl y))
   \<and> distinct (map reason rules_in_order)"
proof -
  have "distinct (map reason rules_in_order)"
    using reasons_distinct by (simp add: rules_in_order_def)
  moreover have "first_violation (u, s, e) (sd, ed) = None
      \<and> new_Date env s = Inr sd \<and> new_Date env e = Inr ed
     \<longrightarrow> (\<exists>x a b. u = JStr x \<and> sd = Some a \<and> ed = Some b
            \<and> validate env u s e = Inr (Accepted x a b))"
    using validate_accepts_no_violation [of u s e sd ed env] by blast
  moreover have "rule_holds FieldsPresent (u, s, e) (sd, ed)
      \<and> rule_holds UserIdText (u, s, e) (sd, ed)
      \<and> (new_Date env s = Inl ex \<or> new_Date env e = Inl ex)
     \<longrightarrow> (\<exists>y. validate env u s e = Inl y)"
    using validate_throws [of u s e sd ed env ex] by blast
  ultimately show ?thesis
    using validate_rejects_first_violation [of u s e sd ed r env] by blast
qed

theorem validation_order_first_violation_witness:
  "\<not> rule_holds UserIdText (JStr (js ''   ''), JStr (js ''2024-01-01T10:00:00Z''), JStr (js ''soon''))
       (Some 1704103200000, None)
   \<and> \<not> rule_holds EndTimeValid (JStr (js ''   ''), JStr (js ''2024-01-01T10:00:00Z''), JStr (js ''soon''))
       (Some 1704103200000, None)
   \<and> validate sample_env (JStr (js ''   '')) (JStr (js ''2024-01-01T10:00:00Z''))
       (JStr (js ''soon'')) = Inr (Rejected BAD_USERID)"
  using validation_order_first_violation [of "JStr (js ''   '')"
      "JStr (js ''2024-01-01T10:00:00Z'')" "JStr (js ''soon'')" "Some 1704103200000" None
      UserIdText sample_env]
  by (simp add: first_violation_def rules_in_order_def whitespace_userId js_eq_Nil)

text \<open>
  C3 says that the request \<^verbatim>\<open>{userId: "", startTime: "2024-01-01T10:00:00Z",
  endTime: "2024-01-01T12:00:00Z"}\<close> is rejected with the reason
  \<^verbatim>\<open>userId must be a non-empty string\<close>. The empty string is falsy, so the
  presence test of line 56 rejects it first, with the missing-fields reason.
\<close>

theorem empty_userId_counterexample:
  "json (fst (post_sessions sample_env empty_userId_request)) = Error MISSING_FIELDS
   \<and> json (fst (post_sessions sample_env empty_userId_request)) \<noteq> Error BAD_USERID"
  by (simp add: post_sessions_def empty_userId_request_def destructure_request validate_def
      MISSING_FIELDS_def BAD_USERID_def js_eq_iff)

text \<open>
  C3, as the handler behaves: for the request \<^verbatim>\<open>{userId: "", startTime:
  "2024-01-01T10:00:00Z", endTime: "2024-01-01T12:00:00Z"}\<close> validation rejects with
  status 400 and the reason \<^verbatim>\<open>Missing required fields: userId, startTime,
  endTime\<close>, on every engine, and nothing else runs.
\<close>

theorem empty_userId_reported_missing:
  "post_sessions env empty_userId_request = (\<lparr>status = 400, json = Error MISSING_FIELDS\<rparr>, [])"
  by (simp add: post_sessions_def empty_userId_request_def destructure_request validate_def)

theorem empty_userId_reported_missing_witness:
  "post_sessions sample_env empty_userId_request
     = (\<lparr>status = 400, json = Error MISSING_FIELDS\<rparr>, [])"
  using empty_userId_reported_missing [of sample_env] by simp

text \<open>
  C4. For every input that is valid otherwise (all fields truthy, \<^verbatim>\<open>userId\<close>
  text that is non-empty after trimming, both dates valid), a duration of exactly
  28 800 000 ms is accepted and a duration of 28 800 001 ms is rejected with the
  reason \<^verbatim>\<open>Session duration cannot exceed 8 hours\<close>, as is every longer one
  (9 hours, say).
\<close>

theorem duration_boundary:
  assumes "trim x \<noteq> []" and "truthy s'" and "truthy e'"
    and "new_Date env s' = Inr (Some a)" and "new_Date env e' = Inr (Some b)"
  shows "(b - a = 28800000 \<longrightarrow> validate env (JStr x) s' e' = Inr (Accepted x a b))
       \<and> (b - a = 28800001 \<longrightarrow> validate env (JStr x) s' e' = Inr (Rejected TOO_LONG))
       \<and> (b - a > 28800000 \<longrightarrow> validate env (JStr x) s' e' = Inr (Rejected TOO_LONG))"
proof -
  from assms(1) have "x \<noteq> []" by (auto simp: trim_def)
  then show ?thesis using assms by (simp add: validate_def maxDuration_def)
qed

theorem duration_boundary_witness:
  "validate sample_env (JStr (js ''alice'')) (JStr (js ''2024-01-01T10:00:00Z''))
      (JStr (js ''2024-01-01T18:00:00Z''))
     = Inr (Accepted (js ''alice'') 1704103200000 1704132000000)
   \<and> validate sample_env (JStr (js ''alice'')) (JStr (js ''2024-01-01T10:00:00Z''))
      (JStr (js ''2024-01-01T18:00:00.001Z''))
     = Inr (Rejected TOO_LONG)
   \<and> validate sample_env (JStr (js ''alice'')) (JStr (js ''2024-01-01T10:00:00Z''))
      (JStr (js ''2024-01-01T19:00:00Z''))
     = Inr (Rejected TOO_LONG)"
  using duration_boundary [of "js ''alice''" "JStr (js ''2024-01-01T10:00:00Z'')"
      "JStr (js ''2024-01-01T19:00:00Z'')" sample_env 1704103200000 1704135600000]
    duration_boundary [of "js ''alice''" "JStr (js ''2024-01-01T10:00:00Z'')"
      "JStr (js ''2024-01-01T18:00:00Z'')" sample_env 1704103200000 1704132000000]
    duration_boundary [of "js ''alice''" "JStr (js ''2024-01-01T10:00:00Z'')"
      "JStr (js ''2024-01-01T18:00:00.001Z'')" sample_env 1704103200000 1704132000001]
  by (simp add: trim_alice js_eq_iff js_eq_Nil Date_parse_def sample_env_fields sample_format_def)

text \<open>
  C5. In every execution of the handler, whatever the request and whatever the stages
  and the store do, at every point of the trace \<^verbatim>\<open>media.audioExtracted\<close>
  implies \<^verbatim>\<open>media.compressed\<close>. The record is constructed with both flags
  false; the extraction stage is only ever called after a fulfilled call of the
  compression stage, with \<^verbatim>\<open>compressed\<close> already true; a fulfilled stage is
  followed at once by the assignment of its own flag, a flag is only assigned right
  after its own stage was fulfilled, that assignment sets its flag and leaves the
  other one as it was, and no other statement changes the record.
\<close>

theorem stage_order_invariant:
  assumes "tr = snd (post_sessions env body)"
  shows "(\<forall>i<length tr. audioExtracted (media (snd (tr ! i))) \<longrightarrow> compressed (media (snd (tr ! i))))
    \<and> (tr \<noteq> [] \<longrightarrow> fst (tr ! 0) = Construct
          \<and> media (snd (tr ! 0)) = \<lparr>compressed = False, audioExtracted = False\<rparr>)
    \<and> (\<forall>i<length tr. \<forall>ok. fst (tr ! i) = Await ExtractAudio ok
          \<longrightarrow> (\<exists>j<i. fst (tr ! j) = Await Compress True) \<and> compressed (media (snd (tr ! i))))
    \<and> (\<forall>i<length tr. \<forall>st. fst (tr ! i) = Await st True
          \<longrightarrow> Suc i < length tr \<and> tr ! Suc i = (SetFlag st, set_flag st (snd (tr ! i))))
    \<and> (\<forall>i st. Suc i < length tr \<and> fst (tr ! Suc i) = SetFlag st
          \<longrightarrow> fst (tr ! i) = Await st True)
    \<and> (\<forall>i. Suc i < length tr \<and> (\<forall>st. fst (tr ! Suc i) \<noteq> SetFlag st)
          \<longrightarrow> snd (tr ! Suc i) = snd (tr ! i))
    \<and> (\<forall>st st' d. flag_of st (set_flag st d)
          \<and> (st' \<noteq> st \<longrightarrow> flag_of st' (set_flag st d) = flag_of st' d))"
proof -
  obtain d0 ok where m: "media d0 = \<lparr>compressed = False, audioExtracted = False\<rparr>"
    and shapes: "tr = []
        \<or> tr = [(Construct, d0), (Await Compress False, d0)]
        \<or> tr = [(Construct, d0), (Await Compress True, d0), (SetFlag Compress, set_compressed d0),
             (Await ExtractAudio False, set_compressed d0)]
        \<or> tr = [(Construct, d0), (Await Compress True, d0), (SetFlag Compress, set_compressed d0),
             (Await ExtractAudio True, set_compressed d0),
             (SetFlag ExtractAudio, set_audioExtracted (set_compressed d0)),
             (Save ok, set_audioExtracted (set_compressed d0))]"
    using trace_shapes [of env body] assms by auto
  have fl: "\<forall>st st' d. flag_of st (set_flag st d)
          \<and> (st' \<noteq> st \<longrightarrow> flag_of st' (set_flag st d) = flag_of st' d)"
    using set_flag_exactly by blast
  have inv: "\<forall>i<length tr. audioExtracted (media (snd (tr ! i)))
      \<longrightarrow> compressed (media (snd (tr ! i)))"
    using shapes m
    by (elim disjE)
      (simp_all add: less_Suc_eq nth_Cons' set_compressed_def set_audioExtracted_def)
  have start: "tr \<noteq> [] \<longrightarrow> fst (tr ! 0) = Construct
          \<and> media (snd (tr ! 0)) = \<lparr>compressed = False, audioExtracted = False\<rparr>"
    using shapes m by (elim disjE) simp_all
  have order: "\<forall>i<length tr. \<forall>ok. fst (tr ! i) = Await ExtractAudio ok
          \<longrightarrow> (\<exists>j<i. fst (tr ! j) = Await Compress True) \<and> compressed (media (snd (tr ! i)))"
  proof (intro allI impI)
    fix i ok
    assume i: "i < length tr" and a: "fst (tr ! i) = Await ExtractAudio ok"
    from shapes i a have i3: "i = 3"
      by (elim disjE) (auto simp: less_Suc_eq nth_Cons' split: if_splits)
    from shapes i a have "fst (tr ! 1) = Await Compress True"
      by (elim disjE) (auto simp: less_Suc_eq nth_Cons' split: if_splits)
    moreover from shapes i a i3 have "compressed (media (snd (tr ! i)))"
      by (elim disjE) (auto simp: set_compressed_def)
    ultimately show "(\<exists>j<i. fst (tr ! j) = Await Compress True)
        \<and> compressed (media (snd (tr ! i)))"
      using i3 by (intro conjI exI [of _ 1]) simp_all
  qed
  have sets: "\<forall>i<length tr. \<forall>st. fst (tr ! i) = Await st True
          \<longrightarrow> Suc i < length tr \<and> tr ! Suc i = (SetFlag st, set_flag st (snd (tr ! i)))"
    using shapes
    by (elim disjE) (simp_all add: less_Suc_eq nth_Cons' set_flag_def)
  have only: "\<forall>i st. Suc i < length tr \<and> fst (tr ! Suc i) = SetFlag st
          \<longrightarrow> fst (tr ! i) = Await st True"
    using shapes
    by (elim disjE) (auto simp: less_Suc_eq nth_Cons' split: if_splits)
  have frame: "\<forall>i. Suc i < length tr \<and> (\<forall>st. fst (tr ! Suc i) \<noteq> SetFlag st)
          \<longrightarrow> snd (tr ! Suc i) = snd (tr ! i)"
    using shapes
    by (elim disjE) (auto simp: less_Suc_eq nth_Cons' split: if_splits)
  show ?thesis using inv start order sets only frame fl by blast
qed

theorem stage_order_invariant_witness:
  "length (snd (post_sessions sample_env alice_request)) = 6
   \<and> fst (snd (post_sessions sample_env alice_request) ! 1) = Await Compress True
   \<and> fst (snd (post_sessions sample_env alice_request) ! 3) = Await ExtractAudio True
   \<and> audioExtracted (media (snd (snd (post_sessions sample_env alice_request) ! 4)))
   \<and> compressed (media (snd (snd (post_sessions sample_env alice_request) ! 4)))"
  using stage_order_invariant [of "snd (post_sessions sample_env alice_request)"
      sample_env alice_request]
  by (simp add: alice_saved alice_data_def)

text \<open>
  C6. For an accepted request: if the compression stage is rejected, both flags stay
  false and the extraction stage is never called; if compression is fulfilled and
  extraction is rejected, \<^verbatim>\<open>compressed\<close> is true and \<^verbatim>\<open>audioExtracted\<close>
  is false. In both cases the store is never called, and the answer (status 500,
  \<^verbatim>\<open>Media processing failed\<close>) carries the session identifier and the record
  as it stood at the failure, with the flags set so far.
\<close>

theorem stage_failure_reports_partial_record:
  assumes "destructure body = Inr (u, s, e)"
    and "validate env u s e = Inr (Accepted x a b)"
  shows "(compress_stage env (make_sessionId env) = Inl ex \<longrightarrow>
           (\<exists>d tr. post_sessions env body =
                (\<lparr>status = 500,
                  json = ErrorWithSession PROCESSING_FAILED (make_sessionId env) d\<rparr>, tr)
              \<and> media d = \<lparr>compressed = False, audioExtracted = False\<rparr>
              \<and> last tr = (Await Compress False, d)
              \<and> (\<forall>ok d'. (Await ExtractAudio ok, d') \<notin> set tr)
              \<and> (\<forall>ok d'. (Save ok, d') \<notin> set tr)))
       \<and> (compress_stage env (make_sessionId env) = Inr r1
            \<and> extract_stage env (make_sessionId env) = Inl ex \<longrightarrow>
           (\<exists>d tr. post_sessions env body =
                (\<lparr>status = 500,
                  json = ErrorWithSession PROCESSING_FAILED (make_sessionId env) d\<rparr>, tr)
              \<and> media d = \<lparr>compressed = True, audioExtracted = False\<rparr>
              \<and> (SetFlag Compress, d) \<in> set tr
              \<and> last tr = (Await ExtractAudio False, d)
              \<and> (\<forall>ok d'. (Save ok, d') \<notin> set tr)))"
proof (intro conjI impI)
  assume "compress_stage env (make_sessionId env) = Inl ex"
  from post_sessions_compress_fails [OF assms this]
  show "\<exists>d tr. post_sessions env body =
                (\<lparr>status = 500,
                  json = ErrorWithSession PROCESSING_FAILED (make_sessionId env) d\<rparr>, tr)
              \<and> media d = \<lparr>compressed = False, audioExtracted = False\<rparr>
              \<and> last tr = (Await Compress False, d)
              \<and> (\<forall>ok d'. (Await ExtractAudio ok, d') \<notin> set tr)
              \<and> (\<forall>ok d'. (Save ok, d') \<notin> set tr)"
    by (simp add: make_sessionData_def)
next
  assume "compress_stage env (make_sessionId env) = Inr r1
            \<and> extract_stage env (make_sessionId env) = Inl ex"
  then have c: "compress_stage env (make_sessionId env) = Inr r1"
    and x: "extract_stage env (make_sessionId env) = Inl ex" by simp_all
  from post_sessions_extract_fails [OF assms c x]
  show "\<exists>d tr. post_sessions env body =
                (\<lparr>status = 500,
                  json = ErrorWithSession PROCESSING_FAILED (make_sessionId env) d\<rparr>, tr)
              \<and> media d = \<lparr>compressed = True, audioExtracted = False\<rparr>
              \<and> (SetFlag Compress, d) \<in> set tr
              \<and> last tr = (Await ExtractAudio False, d)
              \<and> (\<forall>ok d'. (Save ok, d') \<notin> set tr)"
    by (simp add: make_sessionData_def set_compressed_def)
qed

theorem stage_failure_reports_partial_record_witness:
  "(\<exists>d tr. post_sessions compress_fails_env alice_request =
        (\<lparr>status = 500,
          json = ErrorWithSession PROCESSING_FAILED (make_sessionId sample_env) d\<rparr>, tr)
      \<and> media d = \<lparr>compressed = False, audioExtracted = False\<rparr>
      \<and> last tr = (Await Compress False, d)
      \<and> (\<forall>ok d'. (Await ExtractAudio ok, d') \<notin> set tr)
      \<and> (\<forall>ok d'. (Save ok, d') \<notin> set tr))
   \<and> (\<exists>d tr. post_sessions extract_fails_env alice_request =
        (\<lparr>status = 500,
          json = ErrorWithSession PROCESSING_FAILED (make_sessionId sample_env) d\<rparr>, tr)
      \<and> media d = \<lparr>compressed = True, audioExtracted = False\<rparr>
      \<and> (SetFlag Compress, d) \<in> set tr
      \<and> last tr = (Await ExtractAudio False, d)
      \<and> (\<forall>ok d'. (Save ok, d') \<notin> set tr))"
  using stage_failure_reports_partial_record [OF alice_destructured validate_alice,
        of compress_fails_env "Failure (js ''ffmpeg exited with code 1'')" True]
    stage_failure_reports_partial_record [OF alice_destructured validate_alice,
        of extract_fails_env "Failure (js ''ffmpeg exited with code 1'')" True]
  by (simp add: derived_env_fields failing_stage_def simulateVideoCompression_def)

text \<open>
  C7 says that every input that violates a validation rule is rejected with the reason
  of that rule. The request \<^verbatim>\<open>{userId: "alice", startTime:
  "2024-01-01T10:00:00Z", endTime: {toString: 1}}\<close> violates one rule, the fourth
  (\<^verbatim>\<open>endTime\<close> is not a date), but \<^verbatim>\<open>new Date(endTime)\<close> throws at line
  71 and the catch-all of line 163 answers with status 500 and
  \<^verbatim>\<open>Internal server error\<close>, not with status 400 and
  \<^verbatim>\<open>endTime must be a valid date\<close>.
\<close>

theorem violation_rejected_counterexample:
  "truthy (JStr (js ''alice'')) \<and> truthy (JStr (js ''2024-01-01T10:00:00Z''))
   \<and> truthy (JObj [(js ''toString'', JNum (Finite 1))])
   \<and> trim (js ''alice'') \<noteq> []
   \<and> new_Date sample_env (JStr (js ''2024-01-01T10:00:00Z'')) = Inr (Some 1704103200000)
   \<and> new_Date sample_env (JObj [(js ''toString'', JNum (Finite 1))]) = Inl TypeError
   \<and> post_sessions sample_env unconvertible_endTime_request = (internal_error, [])
   \<and> status (fst (post_sessions sample_env unconvertible_endTime_request)) = 500
   \<and> json (fst (post_sessions sample_env unconvertible_endTime_request)) \<noteq> Error BAD_END"
proof -
  have d: "new_Date sample_env (JStr (js ''2024-01-01T10:00:00Z'')) = Inr (Some 1704103200000)"
    by (simp add: Date_parse_def sample_env_fields sample_format_def js_eq_iff js_eq_Nil)
  have "validate sample_env (JStr (js ''alice'')) (JStr (js ''2024-01-01T10:00:00Z''))
        (JObj [(js ''toString'', JNum (Finite 1))]) = Inl TypeError"
    using d by (simp add: validate_def trim_alice js_eq_Nil has_own_def)
  then have p: "post_sessions sample_env unconvertible_endTime_request = (internal_error, [])"
    by (simp add: unconvertible_endTime_request_def
        post_sessions_thrown [OF destructure_request])
  show ?thesis
    using d p by (simp add: trim_alice js_eq_Nil internal_error_def has_own_def)
qed

text \<open>
  C7, as the handler behaves: for every request whose body can be destructured (it is
  not \<^verbatim>\<open>undefined\<close> or \<^verbatim>\<open>null\<close>) and in which some validation rule is
  violated, the handler answers 400 with the reason of the first violated rule (the
  violated rule itself when it is the only one), provided that, when that rule is one of
  the four about dates, both dates can be constructed. When the body cannot be
  destructured, or the first two rules hold and constructing a date throws, the handler
  answers through its catch-all. In all these cases the trace is empty: no stage was
  called and the store was not called.
\<close>

theorem violation_rejected_without_effects:
  "(destructure body = Inr (u, s, e)
      \<and> first_violation (u, s, e) (sd, ed) = Some r
      \<and> (r = FieldsPresent \<or> r = UserIdText
          \<or> (new_Date env s = Inr sd \<and> new_Date env e = Inr ed))
     \<longrightarrow> post_sessions env body = (\<lparr>status = 400, json = Error (reason r)\<rparr>, []))
   \<and> (destructure body = Inl ex
       \<or> (destructure body = Inr (u, s, e)
           \<and> rule_holds FieldsPresent (u, s, e) (sd, ed)
           \<and> rule_holds UserIdText (u, s, e) (sd, ed)
           \<and> (new_Date env s = Inl ex \<or> new_Date env e = Inl ex))
     \<longrightarrow> post_sessions env body = (internal_error, []))"
proof (intro conjI impI)
  assume h: "destructure body = Inr (u, s, e)
      \<and> first_violation (u, s, e) (sd, ed) = Some r
      \<and> (r = FieldsPresent \<or> r = UserIdText
          \<or> (new_Date env s = Inr sd \<and> new_Date env e = Inr ed))"
  then have "validate env u s e = Inr (Rejected (reason r))"
    using validate_rejects_first_violation [of u s e sd ed r env] by blast
  with h show "post_sessions env body = (\<lparr>status = 400, json = Error (reason r)\<rparr>, [])"
    using post_sessions_rejected [of body u s e env "reason r"] by blast
next
  assume h: "destructure body = Inl ex
       \<or> (destructure body = Inr (u, s, e)
           \<and> rule_holds FieldsPresent (u, s, e) (sd, ed)
           \<and> rule_holds UserIdText (u, s, e) (sd, ed)
           \<and> (new_Date env s = Inl ex \<or> new_Date env e = Inl ex))"
  show "post_sessions env body = (internal_error, [])"
  proof (cases "destructure body")
    case (Inl y)
    then show ?thesis by (simp add: post_sessions_def)
  next
    case (Inr f)
    with h have d: "destructure body = Inr (u, s, e)"
      and r1: "rule_holds FieldsPresent (u, s, e) (sd, ed)"
      and r2: "rule_holds UserIdText (u, s, e) (sd, ed)"
      and t: "new_Date env s = Inl ex \<or> new_Date env e = Inl ex"
      by auto
    from validate_throws [OF r1 r2 t] obtain y where "validate env u s e = Inl y" by blast
    with d show ?thesis by (rule post_sessions_thrown)
  qed
qed

theorem violation_rejected_without_effects_witness:
  "post_sessions sample_env
     (request (JStr (js ''alice'')) (JStr (js ''2024-01-01T12:00:00Z''))
        (JStr (js ''2024-01-01T10:00:00Z'')))
   = (\<lparr>status = 400, json = Error BAD_ORDER\<rparr>, [])
   \<and> post_sessions sample_env JNull = (internal_error, [])"
proof -
  have rejected: "post_sessions sample_env
     (request (JStr (js ''alice'')) (JStr (js ''2024-01-01T12:00:00Z''))
        (JStr (js ''2024-01-01T10:00:00Z'')))
   = (\<lparr>status = 400, json = Error BAD_ORDER\<rparr>, [])"
    using violation_rejected_without_effects [of
      "request (JStr (js ''alice'')) (JStr (js ''2024-01-01T12:00:00Z''))
        (JStr (js ''2024-01-01T10:00:00Z''))"
      "JStr (js ''alice'')" "JStr (js ''2024-01-01T12:00:00Z'')"
      "JStr (js ''2024-01-01T10:00:00Z'')" "Some 1704110400000" "Some 1704103200000"
      EndAfterStart sample_env TypeError]
    by (simp add: destructure_request first_violation_def rules_in_order_def trim_alice
      js_eq_Nil js_eq_iff Date_parse_def sample_env_fields sample_format_def)
  have thrown: "post_sessions sample_env JNull = (internal_error, [])"
    using violation_rejected_without_effects [of JNull JUndefined JUndefined JUndefined
      None None FieldsPresent sample_env TypeError]
    by (simp add: destructure_def)
  show ?thesis using rejected thrown by simp
qed

text \<open>
  C8. For an accepted request, if both stages are fulfilled and the save is rejected,
  the answer (status 500, \<^verbatim>\<open>Failed to save session to database\<close>) carries the
  session identifier and the fully processed record with both flags true, and no
  database identifier; the last thing the handler did was the failed save.
\<close>

theorem save_failure_reports_processed_record:
  assumes "destructure body = Inr (u, s, e)"
    and "validate env u s e = Inr (Accepted x a b)"
    and "compress_stage env (make_sessionId env) = Inr r1"
    and "extract_stage env (make_sessionId env) = Inr r2"
    and "store_save env
           \<lparr>doc_id = new_object_id env,
            doc_data = \<lparr>userId = trim x, startTime = a, endTime = b,
              media = \<lparr>compressed = True, audioExtracted = True\<rparr>,
              createdAt = now_createdAt env\<rparr>\<rparr> = Some ex"
  shows "fst (post_sessions env body) =
           \<lparr>status = 500,
            json = ErrorWithSession SAVE_FAILED (make_sessionId env)
              \<lparr>userId = trim x, startTime = a, endTime = b,
               media = \<lparr>compressed = True, audioExtracted = True\<rparr>,
               createdAt = now_createdAt env\<rparr>\<rparr>
         \<and> databaseId (json (fst (post_sessions env body))) = None
         \<and> fst (last (snd (post_sessions env body))) = Save False"
proof -
  have st: "store_save env
      (Session_new env (set_audioExtracted (set_compressed (make_sessionData env x a b))))
      = Some ex"
    using assms(5) by (simp add: processed_record Session_new_def)
  show ?thesis
    by (simp add: post_sessions_save_fails [OF assms(1-4) st] processed_record)
qed

theorem save_failure_reports_processed_record_witness:
  "fst (post_sessions store_down_env alice_request) =
     \<lparr>status = 500,
      json = ErrorWithSession SAVE_FAILED (js ''session_1704140000000_0.4fzyo82mvyr'')
               (alice_data True True)\<rparr>
   \<and> databaseId (json (fst (post_sessions store_down_env alice_request))) = None"
  using save_failure_reports_processed_record [OF alice_destructured validate_alice,
      of store_down_env True True "Failure (js ''connection refused'')"]
  by (simp add: derived_env_fields simulateVideoCompression_def simulateAudioExtraction_def
      sessionId_sample alice_data_def trim_alice)

text \<open>
  C9 says that unexpected faults answer with a status of their own, different from
  that of processing and persistence failures. A request body that cannot be
  destructured, or a \<^verbatim>\<open>startTime\<close> object that cannot be converted to a
  primitive, is such a fault; the catch-all of line 163 answers it with status 500,
  the status of a failed media stage.
\<close>

theorem status_categories_counterexample:
  "fst (post_sessions sample_env JUndefined) = internal_error
   \<and> fst (post_sessions sample_env unconvertible_startTime_request) = internal_error
   \<and> error_text (json (fst (post_sessions compress_fails_env alice_request)))
       = Some PROCESSING_FAILED
   \<and> status internal_error
       = status (fst (post_sessions compress_fails_env alice_request))"
  by (simp add: unconvertible_thrown internal_error_def
      post_sessions_compress_fails [OF alice_destructured validate_alice]
      undefined_body_thrown derived_env_fields failing_stage_def)

text \<open>
  C9, as the handler behaves: a validation failure answers with status 400 and the
  reason; a processing failure, a persistence failure and an unexpected fault all
  answer with status 500, and are told apart by the error text
  (\<^verbatim>\<open>Media processing failed\<close>, \<^verbatim>\<open>Failed to save session to database\<close>,
  \<^verbatim>\<open>Internal server error\<close>), which are pairwise distinct.
\<close>

theorem status_categories:
  "(destructure body = Inr (u, s, e) \<and> validate env u s e = Inr (Rejected r)
      \<longrightarrow> status (fst (post_sessions env body)) = 400
          \<and> json (fst (post_sessions env body)) = Error r)
   \<and> (destructure body = Inr (u, s, e) \<and> validate env u s e = Inr (Accepted x a b)
       \<and> fst (process_media env (make_sessionId env) (make_sessionData env x a b)) = Some ex
      \<longrightarrow> status (fst (post_sessions env body)) = 500
          \<and> error_text (json (fst (post_sessions env body))) = Some PROCESSING_FAILED)
   \<and> (destructure body = Inr (u, s, e) \<and> validate env u s e = Inr (Accepted x a b)
       \<and> process_media env (make_sessionId env) (make_sessionData env x a b) = (None, d, tr)
       \<and> store_save env (Session_new env d) = Some ex
      \<longrightarrow> status (fst (post_sessions env body)) = 500
          \<and> error_text (json (fst (post_sessions env body))) = Some SAVE_FAILED)
   \<and> (destructure body = Inl ex
       \<or> (destructure body = Inr (u, s, e) \<and> validate env u s e = Inl ex)
      \<longrightarrow> status (fst (post_sessions env body)) = 500
          \<and> error_text (json (fst (post_sessions env body))) = Some INTERNAL_ERROR)
   \<and> distinct [PROCESSING_FAILED, SAVE_FAILED, INTERNAL_ERROR]"
proof (intro conjI impI)
  show "distinct [PROCESSING_FAILED, SAVE_FAILED, INTERNAL_ERROR]"
    by (rule failure_texts_distinct)
qed (auto simp: post_sessions_def save_session_def internal_error_def Let_def
      split: prod.splits option.splits)

theorem status_categories_witness:
  "status (fst (post_sessions sample_env unconvertible_startTime_request)) = 500
   \<and> status (fst (post_sessions store_down_env alice_request)) = 500
   \<and> status (fst (post_sessions sample_env empty_userId_request)) = 400"
proof -
  have thrown: "status (fst (post_sessions sample_env unconvertible_startTime_request)) = 500"
    using status_categories [of unconvertible_startTime_request "JStr (js ''alice'')"
      "JObj [(js ''toString'', JNum (Finite 1))]" "JStr (js ''2024-01-01T12:00:00Z'')"
      sample_env MISSING_FIELDS "[]" 0 0 TypeError "alice_data True True" "[]"]
    by (simp add: unconvertible_startTime_request_def destructure_request validate_def
        trim_alice js_eq_Nil has_own_def)
  have unsaved: "status (fst (post_sessions store_down_env alice_request)) = 500"
    using status_categories [of alice_request "JStr (js ''alice'')"
      "JStr (js ''2024-01-01T10:00:00Z'')" "JStr (js ''2024-01-01T12:00:00Z'')"
      store_down_env MISSING_FIELDS "js ''alice''" 1704103200000 1704110400000
      "Failure (js ''connection refused'')" "alice_data True True"
      "[(Await Compress True, alice_data False False),
        (SetFlag Compress, alice_data True False),
        (Await ExtractAudio True, alice_data True False),
        (SetFlag ExtractAudio, alice_data True True)]"]
    by (simp add: alice_destructured validate_alice derived_env_fields process_media_def
        Let_def Session_new_def simulateVideoCompression_def simulateAudioExtraction_def make_sessionData_def
        set_compressed_def set_audioExtracted_def alice_data_def trim_alice)
  have rejected: "status (fst (post_sessions sample_env empty_userId_request)) = 400"
    using status_categories [of empty_userId_request "JStr []"
      "JStr (js ''2024-01-01T10:00:00Z'')" "JStr (js ''2024-01-01T12:00:00Z'')"
      sample_env MISSING_FIELDS "[]" 0 0 TypeError "alice_data True True" "[]"]
    by (simp add: empty_userId_request_def destructure_request validate_def)
  show ?thesis using thrown unsaved rejected by simp
qed

text \<open>
  C10. Field presence is tested by truthiness: whenever one of the three fields is
  falsy (absent, or present as the number 0, the empty string, \<^verbatim>\<open>false\<close>,
  \<^verbatim>\<open>null\<close>), the handler answers 400 with the missing-fields reason, which is
  none of the reasons of the rules about the type of \<^verbatim>\<open>userId\<close> or the
  validity of a date, and nothing else runs.
\<close>

theorem falsy_field_reported_missing:
  assumes "destructure body = Inr (u, s, e)"
    and "\<not> truthy u \<or> \<not> truthy s \<or> \<not> truthy e"
  shows "post_sessions env body = (\<lparr>status = 400, json = Error MISSING_FIELDS\<rparr>, [])
    \<and> MISSING_FIELDS \<notin> {BAD_USERID, BAD_START, BAD_END}
    \<and> \<not> truthy (JNum (Finite 0)) \<and> \<not> truthy (JStr [])"
proof -
  have "validate env u s e = Inr (Rejected MISSING_FIELDS)"
    using assms(2) by (auto simp: validate_def)
  with assms(1) have "post_sessions env body = (\<lparr>status = 400, json = Error MISSING_FIELDS\<rparr>, [])"
    by (rule post_sessions_rejected)
  moreover have "MISSING_FIELDS \<notin> {BAD_USERID, BAD_START, BAD_END}"
    using reasons_distinct by simp
  ultimately show ?thesis by simp
qed

theorem falsy_field_reported_missing_witness:
  "new_Date sample_env (JNum (Finite 0)) = Inr (Some 0)
   \<and> post_sessions sample_env zero_startTime_request
       = (\<lparr>status = 400, json = Error MISSING_FIELDS\<rparr>, [])"
  using falsy_field_reported_missing [of zero_startTime_request "JStr (js ''alice'')"
      "JNum (Finite 0)" "JStr (js ''2024-01-01T12:00:00Z'')" sample_env]
  by (simp add: zero_startTime_request_def destructure_request TimeClip_def)

end
